theory Spec2Isabelle
  imports Complex_Main
begin

section \<open>The site script \<^verbatim>\<open>assets/js/main.js\<close>\<close>

text \<open>
  The script drives a desktop overlay (an element with id \<^verbatim>\<open>desktopOverlay\<close>), closes it
  on Escape and on a click on the overlay itself, and offers \<^verbatim>\<open>loadContent\<close> for fetching
  markup. The model keeps the part of the browser these functions touch: the elements
  reachable by id with their class lists, the inline \<^verbatim>\<open>overflow\<close> style of the body, which
  listeners the script has attached, the console, and what the network answers.
  A thrown exception or a rejected promise is the left summand of a result.
\<close>

subsection \<open>Exceptions and the class list\<close>

text \<open>
  \<^verbatim>\<open>TypeError\<close> is what reading a property of \<^verbatim>\<open>null\<close> throws (and what a failed
  \<^verbatim>\<open>fetch\<close> rejects with); \<^verbatim>\<open>Error msg\<close> is \<^verbatim>\<open>new Error(msg)\<close>.
\<close>

datatype js_error = TypeError | Error string

text \<open>
  A class list (\<^verbatim>\<open>DOMTokenList\<close>) is an ordered set of tokens: \<^verbatim>\<open>add\<close> appends a
  token that is absent, \<^verbatim>\<open>toggle\<close> removes a token that is present and appends it
  otherwise.
\<close>

definition classList_contains :: "string \<Rightarrow> string list \<Rightarrow> bool" where
  "classList_contains tok cl = (tok \<in> set cl)"

definition classList_add :: "string \<Rightarrow> string list \<Rightarrow> string list" where
  "classList_add tok cl = (if tok \<in> set cl then cl else cl @ [tok])"

definition classList_toggle :: "string \<Rightarrow> string list \<Rightarrow> string list" where
  "classList_toggle tok cl = (if tok \<in> set cl then removeAll tok cl else cl @ [tok])"

subsection \<open>The page\<close>

text \<open>
  \<open>elements\<close> maps an id to the class list of the element carrying it; an id no element
  carries maps to \<open>None\<close>, the \<^verbatim>\<open>null\<close> of \<^verbatim>\<open>getElementById\<close>. \<open>body_overflow\<close> is
  \<^verbatim>\<open>document.body.style.overflow\<close>. \<open>keydown_on\<close> and \<open>overlay_click_on\<close> say
  whether the listeners of lines 24 and 31 are attached.
\<close>

record page =
  elements :: "string \<rightharpoonup> string list"
  body_overflow :: string
  keydown_on :: bool
  overlay_click_on :: bool

definition getElementById :: "page \<Rightarrow> string \<Rightarrow> string list option" where
  "getElementById p i = elements p i"

subsection \<open>Desktop overlay control (lines 5 to 21)\<close>

text \<open>
  Both functions look the overlay up and use \<^verbatim>\<open>overlay.classList\<close> without a check, so a
  \<^verbatim>\<open>null\<close> overlay throws before anything is changed.
\<close>

definition toggleDesktop :: "page \<Rightarrow> js_error + page" where
  "toggleDesktop p =
     (case getElementById p ''desktopOverlay'' of
        None \<Rightarrow> Inl TypeError
      | Some cl \<Rightarrow>
          (let cl' = classList_toggle ''hidden'' cl;
               p' = p\<lparr>elements := (elements p)(''desktopOverlay'' \<mapsto> cl')\<rparr>
           in if \<not> classList_contains ''hidden'' cl'
              then Inr (p'\<lparr>body_overflow := ''hidden''\<rparr>)
              else Inr (p'\<lparr>body_overflow := ''''\<rparr>)))"

definition closeDesktop :: "page \<Rightarrow> js_error + page" where
  "closeDesktop p =
     (case getElementById p ''desktopOverlay'' of
        None \<Rightarrow> Inl TypeError
      | Some cl \<Rightarrow>
          (let cl' = classList_add ''hidden'' cl;
               p' = p\<lparr>elements := (elements p)(''desktopOverlay'' \<mapsto> cl')\<rparr>
           in Inr (p'\<lparr>body_overflow := ''''\<rparr>)))"

subsection \<open>Listeners (lines 24 to 35)\<close>

text \<open>
  The keydown listener receives the key; the click listener receives the id of the
  event's target.
\<close>

definition keydown_listener :: "string \<Rightarrow> page \<Rightarrow> js_error + page" where
  "keydown_listener key p = (if key = ''Escape'' then closeDesktop p else Inr p)"

definition click_listener :: "string \<Rightarrow> page \<Rightarrow> js_error + page" where
  "click_listener target_id p =
     (if target_id = ''desktopOverlay'' then closeDesktop p else Inr p)"

text \<open>
  What the top level of the script does when it runs: the keydown listener goes onto the
  document; the click listener goes onto the overlay through \<^verbatim>\<open>?.\<close>, which yields
  \<^verbatim>\<open>undefined\<close> without calling \<^verbatim>\<open>addEventListener\<close> when the lookup gave \<^verbatim>\<open>null\<close>.
\<close>

definition attach_listeners :: "page \<Rightarrow> js_error + page" where
  "attach_listeners p =
     (let p1 = p\<lparr>keydown_on := True\<rparr>
      in case getElementById p1 ''desktopOverlay'' of
           None \<Rightarrow> Inr p1
         | Some cl \<Rightarrow> Inr (p1\<lparr>overlay_click_on := True\<rparr>))"

text \<open>
  An event reaches a listener only if that listener is attached. \<open>OverlayClick t\<close> is a
  click inside the overlay whose target has id \<open>t\<close>.
\<close>

datatype event = KeyDown string | OverlayClick string

fun dispatch :: "event \<Rightarrow> page \<Rightarrow> js_error + page" where
  "dispatch (KeyDown key) p = (if keydown_on p then keydown_listener key p else Inr p)"
| "dispatch (OverlayClick t) p = (if overlay_click_on p then click_listener t p else Inr p)"

subsection \<open>Content loading (lines 94 to 103)\<close>

text \<open>
  A response carries its \<^verbatim>\<open>ok\<close> flag and what \<^verbatim>\<open>response.text()\<close> settles to. The network
  is a parameter: what \<^verbatim>\<open>fetch(url)\<close> settles to, for every url.
\<close>

record response =
  ok :: bool
  text_result :: "js_error + string"

type_synonym network = "string \<Rightarrow> js_error + response"

datatype log_entry = ConsoleError string js_error

text \<open>The body of \<^verbatim>\<open>try\<close>: the first rejection or throw leaves it.\<close>

definition try_block :: "network \<Rightarrow> string \<Rightarrow> js_error + string" where
  "try_block fetch url =
     (case fetch url of
        Inl e \<Rightarrow> Inl e
      | Inr resp \<Rightarrow>
          if \<not> ok resp then Inl (Error ''Content not found'') else text_result resp)"

text \<open>The body of \<^verbatim>\<open>catch\<close>: one line on the console, then the replacement markup.\<close>

definition catch_block :: "js_error \<Rightarrow> log_entry list \<Rightarrow> string \<times> log_entry list" where
  "catch_block e console =
     (''<p>Content could not be loaded.</p>'',
      console @ [ConsoleError ''Error loading content:'' e])"

definition loadContent ::
  "network \<Rightarrow> string \<Rightarrow> log_entry list \<Rightarrow> (js_error + string) \<times> log_entry list" where
  "loadContent fetch url console =
     (case try_block fetch url of
        Inr body \<Rightarrow> (Inr body, console)
      | Inl e \<Rightarrow> (case catch_block e console of (s, console') \<Rightarrow> (Inr s, console')))"

subsection \<open>Concrete pages and networks\<close>

text \<open>A page with no overlay element, before the script has run.\<close>

definition bare_page :: page where
  "bare_page =
     \<lparr>elements = Map.empty, body_overflow = '''', keydown_on = False,
      overlay_click_on = False\<rparr>"

text \<open>A page whose overlay is open (its class list lacks \<^verbatim>\<open>hidden\<close>).\<close>

definition desktop_page :: page where
  "desktop_page =
     \<lparr>elements = [''desktopOverlay'' \<mapsto> [''overlay'']], body_overflow = ''hidden'',
      keydown_on = False, overlay_click_on = False\<rparr>"

text \<open>A network on which every \<^verbatim>\<open>fetch\<close> rejects, and one that answers 404 with a body.\<close>

definition offline :: network where
  "offline url = Inl TypeError"

definition not_found :: network where
  "not_found url = Inr \<lparr>ok = False, text_result = Inr ''<h1>Not Found</h1>''\<rparr>"

definition serving :: network where
  "serving url = Inr \<lparr>ok = True, text_result = Inr ''<p>About</p>''\<rparr>"

section \<open>The zone classifier of the tracker\<close>

text \<open>
  Modelled from the spec: the tracker's \<^verbatim>\<open>classify\<close> (the Python tool described in
  \<^verbatim>\<open>tools/README.md\<close>) is not among the source files. The definition follows section 4.1
  of the specification: the five bands in the required order, first match wins, and
  \<open>Unclassified\<close> when none matches. The bands are those of the zone table of
  \<^verbatim>\<open>tools/README.md\<close>. Coordinates are real numbers.
\<close>

datatype ZoneLabel = Green | Gold | Yellow | Red | Purple | Unclassified

definition classify :: "real \<Rightarrow> real \<Rightarrow> real \<Rightarrow> ZoneLabel" where
  "classify x y z =
     (if x < 0.3 \<and> y < 0.3 \<and> z > 0.8 then Green
      else if x < 0.5 \<and> y < 0.5 \<and> z > 0.7 then Gold
      else if x < 0.8 \<and> y < 0.8 \<and> z > 0.4 then Yellow
      else if x < 0.95 \<and> y < 0.85 \<and> z > 0.2 then Red
      else if x > 0.9 \<and> y > 0.85 \<and> z < 0.2 then Purple
      else Unclassified)"

section \<open>Properties of the overlay control\<close>

lemma classList_add_contains: "classList_contains tok (classList_add tok cl)"
  by (simp add: classList_contains_def classList_add_def)

lemma classList_add_idem: "classList_add tok (classList_add tok cl) = classList_add tok cl"
  by (simp add: classList_add_def)

lemma classList_toggle_flips:
  "classList_contains tok (classList_toggle tok cl) = (\<not> classList_contains tok cl)"
  by (simp add: classList_contains_def classList_toggle_def)

text \<open>With the overlay present, closing hides it and releases the body's scroll lock.\<close>

lemma closeDesktop_present:
  assumes "getElementById p ''desktopOverlay'' = Some cl"
  shows "\<exists>p'. closeDesktop p = Inr p'
           \<and> getElementById p' ''desktopOverlay'' = Some (classList_add ''hidden'' cl)
           \<and> body_overflow p' = ''''"
  using assms by (simp add: closeDesktop_def getElementById_def Let_def)

text \<open>
  With the overlay present, toggling never throws, flips the \<^verbatim>\<open>hidden\<close> class, and locks
  the body's scroll exactly when the overlay has become visible.
\<close>

lemma toggleDesktop_present:
  assumes "getElementById p ''desktopOverlay'' = Some cl"
  shows "\<exists>p' cl'. toggleDesktop p = Inr p'
           \<and> getElementById p' ''desktopOverlay'' = Some cl'
           \<and> classList_contains ''hidden'' cl' = (\<not> classList_contains ''hidden'' cl)
           \<and> body_overflow p' = (if classList_contains ''hidden'' cl then ''hidden'' else '''')"
  using assms
  by (simp add: toggleDesktop_def getElementById_def Let_def classList_toggle_flips)

lemma attach_listeners_present:
  assumes "getElementById p ''desktopOverlay'' = Some cl"
  shows "attach_listeners p = Inr (p\<lparr>keydown_on := True, overlay_click_on := True\<rparr>)"
  using assms by (simp add: attach_listeners_def getElementById_def Let_def)

text \<open>A run on a page that has the overlay: the script attaches both listeners, and Escape
  then hides the open overlay and unlocks the body.\<close>

lemma escape_closes_desktop_page:
  "attach_listeners desktop_page
     = Inr (desktop_page\<lparr>keydown_on := True, overlay_click_on := True\<rparr>)
   \<and> dispatch (KeyDown ''Escape'') (desktop_page\<lparr>keydown_on := True, overlay_click_on := True\<rparr>)
     = Inr \<lparr>elements = [''desktopOverlay'' \<mapsto> [''overlay'', ''hidden'']],
            body_overflow = '''', keydown_on = True, overlay_click_on = True\<rparr>"
  by (simp add: attach_listeners_def getElementById_def desktop_page_def Let_def
      keydown_listener_def closeDesktop_def classList_add_def)

text \<open>
  C10. On a page where the lookup of \<^verbatim>\<open>desktopOverlay\<close> gives \<^verbatim>\<open>null\<close>, \<^verbatim>\<open>toggleDesktop\<close>
  and \<^verbatim>\<open>closeDesktop\<close> throw a \<^verbatim>\<open>TypeError\<close> rather than leaving the page as it is, and so
  does the Escape key: the keydown listener calls \<^verbatim>\<open>closeDesktop\<close> with no check, and the
  script attaches it to the document whether or not the overlay exists. Only the
  registration of the click listener is guarded: it does not throw, and attaches nothing.
\<close>

theorem missing_overlay_throws:
  assumes "getElementById p ''desktopOverlay'' = None"
  shows "toggleDesktop p = Inl TypeError \<and> toggleDesktop p \<noteq> Inr p
       \<and> closeDesktop p = Inl TypeError \<and> closeDesktop p \<noteq> Inr p
       \<and> keydown_listener ''Escape'' p = Inl TypeError
       \<and> attach_listeners p = Inr (p\<lparr>keydown_on := True\<rparr>)
       \<and> dispatch (KeyDown ''Escape'') (p\<lparr>keydown_on := True\<rparr>) = Inl TypeError"
proof -
  have toggle: "toggleDesktop p = Inl TypeError"
    using assms by (simp add: toggleDesktop_def)
  have close: "closeDesktop p = Inl TypeError"
    using assms by (simp add: closeDesktop_def)
  have key: "keydown_listener ''Escape'' p = Inl TypeError"
    using close by (simp add: keydown_listener_def)
  have attach: "attach_listeners p = Inr (p\<lparr>keydown_on := True\<rparr>)"
    using assms by (simp add: attach_listeners_def getElementById_def Let_def)
  have "closeDesktop (p\<lparr>keydown_on := True\<rparr>) = Inl TypeError"
    using assms by (simp add: closeDesktop_def getElementById_def)
  then have escape: "dispatch (KeyDown ''Escape'') (p\<lparr>keydown_on := True\<rparr>) = Inl TypeError"
    by (simp add: keydown_listener_def)
  from toggle close key attach escape show ?thesis by simp
qed

theorem missing_overlay_throws_witness:
  "getElementById bare_page ''desktopOverlay'' = None
   \<and> toggleDesktop bare_page = Inl TypeError
   \<and> closeDesktop bare_page = Inl TypeError
   \<and> keydown_listener ''Escape'' bare_page = Inl TypeError
   \<and> attach_listeners bare_page = Inr (bare_page\<lparr>keydown_on := True\<rparr>)
   \<and> dispatch (KeyDown ''Escape'') (bare_page\<lparr>keydown_on := True\<rparr>) = Inl TypeError"
proof -
  have absent: "getElementById bare_page ''desktopOverlay'' = None"
    by (simp add: getElementById_def bare_page_def)
  from absent missing_overlay_throws [OF absent] show ?thesis by simp
qed

section \<open>Properties of content loading\<close>

lemma try_block_succeeds_iff:
  "try_block fetch url = Inr body \<longleftrightarrow>
     (\<exists>resp. fetch url = Inr resp \<and> ok resp \<and> text_result resp = Inr body)"
  by (auto simp: try_block_def split: sum.splits)

text \<open>
  Which error leaves \<^verbatim>\<open>try\<close>: a rejected fetch passes its own error on; a response that is
  not \<^verbatim>\<open>ok\<close> throws \<^verbatim>\<open>Content not found\<close> before its body is read, whatever reading it
  would have given; a rejected read of an \<^verbatim>\<open>ok\<close> response passes its error on.
\<close>

lemma try_block_fetch_rejected:
  "fetch url = Inl e \<Longrightarrow> try_block fetch url = Inl e"
  by (simp add: try_block_def)

lemma try_block_not_ok:
  "fetch url = Inr resp \<Longrightarrow> \<not> ok resp \<Longrightarrow>
     try_block fetch url = Inl (Error ''Content not found'')"
  by (simp add: try_block_def)

lemma try_block_read_rejected:
  "fetch url = Inr resp \<Longrightarrow> ok resp \<Longrightarrow> text_result resp = Inl e \<Longrightarrow>
     try_block fetch url = Inl e"
  by (simp add: try_block_def)

lemma try_block_not_ok_unread:
  "try_block (\<lambda>u. Inr \<lparr>ok = False, text_result = Inl TypeError\<rparr>) url
     = Inl (Error ''Content not found'')"
  by (simp add: try_block_def)

lemma try_block_offline: "try_block offline url = Inl TypeError"
  by (simp add: try_block_def offline_def)

lemma try_block_not_found: "try_block not_found url = Inl (Error ''Content not found'')"
  by (simp add: try_block_def not_found_def)

lemma loadContent_serving:
  "loadContent serving url console = (Inr ''<p>About</p>'', console)"
  by (simp add: loadContent_def try_block_def serving_def)

text \<open>
  Two failed loads. With every \<^verbatim>\<open>fetch\<close> rejecting, and with a response that is not
  \<^verbatim>\<open>ok\<close>, loading \<^verbatim>\<open>pages/ask.html\<close> fails inside \<^verbatim>\<open>try\<close>; \<^verbatim>\<open>loadContent\<close> resolves all
  the same, to the replacement markup, with the error on the console.
\<close>

lemma loadContent_fallback_examples:
  "loadContent offline ''pages/ask.html'' []
     = (Inr ''<p>Content could not be loaded.</p>'',
        [ConsoleError ''Error loading content:'' TypeError])
   \<and> loadContent not_found ''pages/ask.html'' []
     = (Inr ''<p>Content could not be loaded.</p>'',
        [ConsoleError ''Error loading content:'' (Error ''Content not found'')])"
  by (simp add: loadContent_def catch_block_def try_block_offline try_block_not_found)

text \<open>
  \<^verbatim>\<open>loadContent\<close> never rejects. It resolves to the text of the response exactly when the
  fetch resolved, the response was \<^verbatim>\<open>ok\<close> and reading its text resolved, and then it
  leaves the console alone. On every failure it writes one \<^verbatim>\<open>console.error\<close> line, the
  prefix \<^verbatim>\<open>Error loading content:\<close> with the error that left \<^verbatim>\<open>try\<close>, and resolves to
  the markup \<^verbatim>\<open><p>Content could not be loaded.</p>\<close>.
\<close>

lemma loadContent_resolves: "\<exists>s. fst (loadContent fetch url console) = Inr s"
  by (simp add: loadContent_def catch_block_def split: sum.splits)

lemma loadContent_outcome:
  "loadContent fetch url console =
     (case try_block fetch url of
        Inr body \<Rightarrow> (Inr body, console)
      | Inl e \<Rightarrow>
          (Inr ''<p>Content could not be loaded.</p>'',
           console @ [ConsoleError ''Error loading content:'' e]))"
  by (simp add: loadContent_def catch_block_def split: sum.splits)

lemma loadContent_console_unchanged_iff:
  "snd (loadContent fetch url console) = console \<longleftrightarrow>
     (\<exists>resp body. fetch url = Inr resp \<and> ok resp \<and> text_result resp = Inr body)"
proof (cases "try_block fetch url")
  case (Inl e)
  then have "\<nexists>body. try_block fetch url = Inr body" by simp
  then have "\<nexists>resp body. fetch url = Inr resp \<and> ok resp \<and> text_result resp = Inr body"
    by (simp add: try_block_succeeds_iff)
  with Inl show ?thesis by (simp add: loadContent_outcome)
next
  case (Inr body)
  then have "\<exists>resp. fetch url = Inr resp \<and> ok resp \<and> text_result resp = Inr body"
    by (simp add: try_block_succeeds_iff)
  with Inr show ?thesis by (auto simp: loadContent_outcome)
qed

section \<open>Properties of the classifier\<close>

lemma classify_total:
  "classify x y z \<in> {Green, Gold, Yellow, Red, Purple, Unclassified}"
  by (cases "classify x y z") simp_all

text \<open>
  C6, as stated, at a concrete input. The point \<open>(0.96, 0.9, 0.1)\<close> has all coordinates
  in \<open>[0,1]\<close> and \<open>x = 0.96\<close>, yet it lies in the Purple band, whose bound on \<open>x\<close> is a
  lower one.
\<close>

theorem classify_x096_counterexample:
  "(0::real) \<le> 0.9 \<and> (0.9::real) \<le> 1 \<and> (0::real) \<le> 0.1 \<and> (0.1::real) \<le> 1
   \<and> classify 0.96 0.9 0.1 = Purple \<and> classify 0.96 0.9 0.1 \<noteq> Unclassified"
  by (simp add: classify_def)

text \<open>
  C6, amended. For \<open>y\<close> and \<open>z\<close> in \<open>[0,1]\<close>, a point with \<open>x = 0.96\<close> is outside the
  Green, Gold, Yellow and Red bands; it is Purple when \<open>y > 0.85\<close> and \<open>z < 0.2\<close>, and
  Unclassified otherwise.
\<close>

theorem classify_x096:
  assumes "0 \<le> y" "y \<le> 1" "0 \<le> z" "z \<le> 1"
  shows "classify 0.96 y z = (if y > 0.85 \<and> z < 0.2 then Purple else Unclassified)"
  by (simp add: classify_def)

theorem classify_x096_witness:
  "(0::real) \<le> 0.5 \<and> (0.5::real) \<le> 1 \<and> classify 0.96 0.5 0.5 = Unclassified"
proof -
  have "classify 0.96 0.5 0.5 = (if (0.5::real) > 0.85 \<and> (0.5::real) < 0.2 then Purple else Unclassified)"
    by (rule classify_x096) simp_all
  then show ?thesis by simp
qed

end
